theory Spec2Isabelle
  imports Complex_Main "HOL-Library.Word" "HOL-Library.Sublist"
begin

section \<open>Strings, bytes and Python values\<close>

text \<open>
  The embedding follows \<^verbatim>\<open>utils.py\<close>. Python \<^verbatim>\<open>str\<close> values are
  HOL strings, \<^verbatim>\<open>bytes\<close> are lists of 8-bit words and Python floats are
  modelled by the reals, so rounding is not part of the model.
\<close>

type_synonym bytes = "8 word list"

text \<open>
  \<^verbatim>\<open>str.lower()\<close> on the characters a HOL \<open>char\<close> can hold (code points
  0 to 255): the ASCII capitals and the Latin-1 capitals \<open>0xC0..0xDE\<close> without the
  multiplication sign \<open>0xD7\<close> move up by 32, every other character stays.
\<close>

definition lower_char :: "char \<Rightarrow> char" where
  "lower_char c =
     (let n = (of_char c :: nat)
      in if (65 \<le> n \<and> n \<le> 90) \<or> (192 \<le> n \<and> n \<le> 222 \<and> n \<noteq> 215)
         then char_of (n + 32) else c)"

definition lower :: "string \<Rightarrow> string" where
  "lower s = map lower_char s"

text \<open>
  \<^verbatim>\<open>str.isspace\<close> on the same range, which is what \<^verbatim>\<open>str.strip()\<close>
  removes from both ends.
\<close>

definition is_space :: "char \<Rightarrow> bool" where
  "is_space c =
     (let n = (of_char c :: nat)
      in (9 \<le> n \<and> n \<le> 13) \<or> (28 \<le> n \<and> n \<le> 32) \<or> n = 133 \<or> n = 160)"

definition strip :: "string \<Rightarrow> string" where
  "strip s = rev (dropWhile is_space (rev (dropWhile is_space s)))"

text \<open>The substring test \<^verbatim>\<open>sub in s\<close> of Python strings.\<close>

fun starts_with :: "string \<Rightarrow> string \<Rightarrow> bool" where
  "starts_with [] s = True"
| "starts_with (a # as) [] = False"
| "starts_with (a # as) (c # cs) = (a = c \<and> starts_with as cs)"

fun py_in :: "string \<Rightarrow> string \<Rightarrow> bool" where
  "py_in sub [] = (sub = [])"
| "py_in sub (c # cs) = (starts_with sub (c # cs) \<or> py_in sub cs)"

text \<open>One entry of a pipeline's output: \<^verbatim>\<open>{"label": ..., "score": ...}\<close>.\<close>

record classification =
  label :: string
  score :: real

text \<open>
  The second component of every returned pair is either a dictionary built by this
  module or the raw output list of a pipeline, returned as it is.
\<close>

datatype pyval = PyStr string | PyInt int | PyFloat real

datatype details = Dict "(string \<times> pyval) list" | Raw "classification list"

type_synonym result = "real \<times> details"

text \<open>\<^verbatim>\<open>"error" in details\<close>: a key of the dictionary; never true of a raw list.\<close>

fun has_error :: "details \<Rightarrow> bool" where
  "has_error (Dict kvs) = (map_of kvs ''error'' \<noteq> None)"
| "has_error (Raw out) = False"

text \<open>An exception caught by \<^verbatim>\<open>except Exception as e\<close>; \<open>str\<close> is \<^verbatim>\<open>str(e)\<close>.\<close>

datatype exn = Exception (str: string)

section \<open>Score normalisation\<close>

text \<open>
  Lines 51 to 55 (audio), 75 to 83 (text) and 97 to 101 (image): the score computed
  from the top entry of the pipeline's output.
\<close>

definition image_likelihood :: "classification \<Rightarrow> real" where
  "image_likelihood r =
     (let lbl = lower (label r); sc = score r * 100
      in if py_in ''real'' lbl \<or> py_in ''realism'' lbl then (1 - score r) * 100 else sc)"

definition audio_likelihood :: "classification \<Rightarrow> real" where
  "audio_likelihood r =
     (let lbl = lower (label r); sc = score r * 100
      in if py_in ''real'' lbl \<or> py_in ''bonafide'' lbl then (1 - score r) * 100 else sc)"

definition text_likelihood :: "classification \<Rightarrow> real" where
  "text_likelihood r =
     (let lbl = lower (label r); sc = score r * 100
      in if py_in ''fake'' lbl \<or> py_in ''generated'' lbl then sc
         else if py_in ''real'' lbl \<or> py_in ''human'' lbl then 100 - sc
         else sc)"

section \<open>Collaborators and the state of the process\<close>

text \<open>
  Everything this module calls and does not define is a field of the environment:
  the three \<^verbatim>\<open>pipeline(...)\<close> constructions, the pipelines themselves, the image
  and audio codecs, \<^verbatim>\<open>os.path.splitext\<close> and the three file operations that
  can raise. A result \<open>Inl e\<close> (or \<open>Some e\<close>) is the collaborator raising \<open>e\<close>.
  Only exceptions derived from \<^verbatim>\<open>Exception\<close> are modelled.
\<close>

datatype capability = Image | Audio | Text

type_synonym path = "nat \<times> string"

type_synonym pil_image = "8 word list"

type_synonym waveform = "real list"

record env =
  load_pipeline :: "capability \<Rightarrow> exn option"
  image_open :: "bytes \<Rightarrow> exn + pil_image"
  image_pipe :: "pil_image \<Rightarrow> exn + classification list"
  librosa_load :: "path \<Rightarrow> bytes \<Rightarrow> exn + waveform"
  sf_write :: "waveform \<Rightarrow> exn + bytes"
  audio_pipe :: "bytes \<Rightarrow> exn + classification list"
  text_detector :: "string \<Rightarrow> exn + classification list"
  splitext :: "string \<Rightarrow> string \<times> string"
  mktemp_err :: "string \<Rightarrow> exn option"
  write_err :: "bytes \<Rightarrow> exn option"
  unlink_err :: "path \<Rightarrow> exn option"

text \<open>
  What the calls observe and change: the files on disk, the counter that makes
  temporary names unique, the capabilities whose handle \<^verbatim>\<open>st.cache_resource\<close>
  already holds, and the log of handle requests, model loads and inference calls.
\<close>

datatype event = GetHandle capability | LoadModel capability | Infer capability

record world =
  files :: "path \<Rightarrow> bytes option"
  next_tmp :: nat
  cached :: "capability list"
  trace :: "event list"

definition log_event :: "event \<Rightarrow> world \<Rightarrow> world" where
  "log_event ev s = s\<lparr>trace := trace s @ [ev]\<rparr>"

text \<open>
  Lines 19 to 31. A function under \<^verbatim>\<open>st.cache_resource\<close> runs its body on
  the first call that completes and returns the stored handle afterwards; a body that
  raises stores nothing.
\<close>

definition get_handle :: "env \<Rightarrow> capability \<Rightarrow> world \<Rightarrow> exn option \<times> world" where
  "get_handle e cap s =
     (let s1 = log_event (GetHandle cap) s
      in if cap \<in> set (cached s1) then (None, s1)
         else (let s2 = log_event (LoadModel cap) s1
               in case load_pipeline e cap of
                    Some x \<Rightarrow> (Some x, s2)
                  | None \<Rightarrow> (None, s2\<lparr>cached := cap # cached s2\<rparr>)))"

definition get_image_pipe :: "env \<Rightarrow> world \<Rightarrow> exn option \<times> world" where
  "get_image_pipe e s = get_handle e Image s"

definition get_audio_pipe :: "env \<Rightarrow> world \<Rightarrow> exn option \<times> world" where
  "get_audio_pipe e s = get_handle e Audio s"

definition get_text_detector :: "env \<Rightarrow> world \<Rightarrow> exn option \<times> world" where
  "get_text_detector e s = get_handle e Text s"

text \<open>\<^verbatim>\<open>out[0]\<close> on an empty list raises \<^verbatim>\<open>IndexError\<close>.\<close>

definition index_error :: exn where
  "index_error = Exception ''list index out of range''"

definition error_result :: "string \<Rightarrow> exn \<Rightarrow> result" where
  "error_result what x = (0, Dict [(''error'', PyStr (what @ str x))])"

section \<open>Audio analysis\<close>

text \<open>Lines 43 to 57: the body of the inner \<^verbatim>\<open>try\<close>.\<close>

definition audio_body :: "env \<Rightarrow> path \<Rightarrow> world \<Rightarrow> (exn + result) \<times> world" where
  "audio_body e p s =
     (case files s p of
        None \<Rightarrow> (Inl (Exception ''No such file or directory''), s)
      | Some content \<Rightarrow>
     (case librosa_load e p content of
        Inl x \<Rightarrow> (Inl x, s)
      | Inr y \<Rightarrow>
     (case sf_write e y of
        Inl x \<Rightarrow> (Inl x, s)
      | Inr wav \<Rightarrow>
     (case get_audio_pipe e s of
        (Some x, s1) \<Rightarrow> (Inl x, s1)
      | (None, s1) \<Rightarrow>
     (let s2 = log_event (Infer Audio) s1
      in case audio_pipe e wav of
           Inl x \<Rightarrow> (Inl x, s2)
         | Inr out \<Rightarrow>
        (case out of
           [] \<Rightarrow> (Inl index_error, s2)
         | r # rest \<Rightarrow> (Inr (audio_likelihood r, Raw out), s2)))))))"

text \<open>Lines 58 to 60: the \<^verbatim>\<open>finally\<close> clause.\<close>

definition audio_cleanup :: "env \<Rightarrow> path \<Rightarrow> world \<Rightarrow> exn option \<times> world" where
  "audio_cleanup e p s =
     (if files s p \<noteq> None
      then (case unlink_err e p of
              Some x \<Rightarrow> (Some x, s)
            | None \<Rightarrow> (None, s\<lparr>files := (files s)(p := None)\<rparr>))
      else (None, s))"

text \<open>
  \<^verbatim>\<open>try: ... finally: ...\<close>: the clause runs after the body whatever the body
  did, and an exception raised by the clause replaces the body's outcome.
\<close>

definition audio_try_finally :: "env \<Rightarrow> path \<Rightarrow> world \<Rightarrow> (exn + result) \<times> world" where
  "audio_try_finally e p s =
     (case audio_body e p s of
        (r, s1) \<Rightarrow>
          (case audio_cleanup e p s1 of
             (Some x, s2) \<Rightarrow> (Inl x, s2)
           | (None, s2) \<Rightarrow> (r, s2)))"

text \<open>
  The name \<^verbatim>\<open>NamedTemporaryFile\<close> gives the file. The library draws candidate
  names, opens each one exclusively, skips a name that is taken and gives up after
  \<^verbatim>\<open>TMP_MAX\<close> candidates, so the file it makes never existed before. Here the
  candidates are the numbers from \<open>next_tmp\<close> on.
\<close>

definition TMP_MAX :: nat where
  "TMP_MAX = 10000"

definition fresh_tmp :: "world \<Rightarrow> string \<Rightarrow> path option" where
  "fresh_tmp s sfx =
     map_option (\<lambda>n. (n, sfx))
       (find (\<lambda>n. files s (n, sfx) = None) [next_tmp s ..< next_tmp s + TMP_MAX])"

text \<open>
  Lines 38 to 60: everything inside the outer \<^verbatim>\<open>try\<close>. The suffix is computed
  before the file is made, so a missing filename raises with no file on disk. The
  file is made with \<^verbatim>\<open>delete=False\<close>: an exception raised while writing or
  closing it leaves the \<^verbatim>\<open>with\<close> block before the inner \<^verbatim>\<open>try\<close> is entered.
\<close>

definition audio_outer :: "env \<Rightarrow> bytes \<Rightarrow> string option \<Rightarrow> world \<Rightarrow> (exn + result) \<times> world" where
  "audio_outer e audio_bytes filename s =
     (case filename of
        None \<Rightarrow> (Inl (Exception ''expected str, bytes or os.PathLike object, not NoneType''), s)
      | Some fn \<Rightarrow>
     (let sfx = snd (splitext e fn)
      in case mktemp_err e sfx of
           Some x \<Rightarrow> (Inl x, s)
         | None \<Rightarrow>
        (case fresh_tmp s sfx of
           None \<Rightarrow> (Inl (Exception ''No usable temporary file name found''), s)
         | Some p \<Rightarrow>
        (let s1 = s\<lparr>files := (files s)(p \<mapsto> []), next_tmp := Suc (fst p)\<rparr>
         in case write_err e audio_bytes of
              Some x \<Rightarrow> (Inl x, s1)
            | None \<Rightarrow> audio_try_finally e p (s1\<lparr>files := (files s1)(p \<mapsto> audio_bytes)\<rparr>)))))"

definition process_audio_file :: "env \<Rightarrow> bytes \<Rightarrow> string option \<Rightarrow> world \<Rightarrow> result \<times> world" where
  "process_audio_file e audio_bytes filename s =
     (case audio_outer e audio_bytes filename s of
        (Inl x, s1) \<Rightarrow> (error_result ''Error processing audio: '' x, s1)
      | (Inr r, s1) \<Rightarrow> (r, s1))"

section \<open>Text analysis\<close>

text \<open>Lines 72 to 85: what follows the length guard inside the \<^verbatim>\<open>try\<close>.\<close>

definition text_body :: "env \<Rightarrow> string \<Rightarrow> world \<Rightarrow> (exn + result) \<times> world" where
  "text_body e text s =
     (case get_text_detector e s of
        (Some x, s1) \<Rightarrow> (Inl x, s1)
      | (None, s1) \<Rightarrow>
     (let s2 = log_event (Infer Text) s1
      in case text_detector e (take 1000 text) of
           Inl x \<Rightarrow> (Inl x, s2)
         | Inr out \<Rightarrow>
        (case out of
           [] \<Rightarrow> (Inl index_error, s2)
         | r # rest \<Rightarrow>
             (Inr (text_likelihood r,
                   Dict [(''detector_label'', PyStr (lower (label r))),
                         (''detector_confidence'', PyFloat (score r * 100))]), s2))))"

definition text_score_ml :: "env \<Rightarrow> string \<Rightarrow> world \<Rightarrow> result \<times> world" where
  "text_score_ml e text s =
     (if length (strip text) < 50
      then ((0, Dict [(''error'', PyStr ''Text is too short for accurate analysis''),
                      (''text_length'', PyInt (int (length text)))]), s)
      else (case text_body e text s of
              (Inl x, s1) \<Rightarrow> (error_result ''Error processing text: '' x, s1)
            | (Inr r, s1) \<Rightarrow> (r, s1)))"

section \<open>Image analysis\<close>

text \<open>Lines 94 to 103: the body of the \<^verbatim>\<open>try\<close>.\<close>

definition image_body :: "env \<Rightarrow> bytes \<Rightarrow> world \<Rightarrow> (exn + result) \<times> world" where
  "image_body e image_bytes s =
     (case get_image_pipe e s of
        (Some x, s1) \<Rightarrow> (Inl x, s1)
      | (None, s1) \<Rightarrow>
     (case image_open e image_bytes of
        Inl x \<Rightarrow> (Inl x, s1)
      | Inr pil \<Rightarrow>
     (let s2 = log_event (Infer Image) s1
      in case image_pipe e pil of
           Inl x \<Rightarrow> (Inl x, s2)
         | Inr out \<Rightarrow>
        (case out of
           [] \<Rightarrow> (Inl index_error, s2)
         | r # rest \<Rightarrow> (Inr (image_likelihood r, Raw out), s2)))))"

definition image_score_ml :: "env \<Rightarrow> bytes \<Rightarrow> world \<Rightarrow> result \<times> world" where
  "image_score_ml e image_bytes s =
     (case image_body e image_bytes s of
        (Inl x, s1) \<Rightarrow> (error_result ''Error processing image: '' x, s1)
      | (Inr r, s1) \<Rightarrow> (r, s1))"

section \<open>Wrappers\<close>

definition audio_score_ml :: "env \<Rightarrow> bytes \<Rightarrow> string option \<Rightarrow> world \<Rightarrow> result \<times> world" where
  "audio_score_ml e audio_bytes filename s = process_audio_file e audio_bytes filename s"

text \<open>
  Lines 122 to 125 and 135 to 138. The progress bar is a widget of the caller:
  \<open>f n\<close> is what \<^verbatim>\<open>progress_bar.progress(n)\<close> raises, if anything. The loop is
  outside every \<^verbatim>\<open>try\<close>, so the first update that raises ends the call. The
  pauses of \<^verbatim>\<open>time.sleep\<close> are not modelled.
\<close>

type_synonym progress_bar = "nat \<Rightarrow> exn option"

fun progress_loop :: "progress_bar option \<Rightarrow> nat list \<Rightarrow> exn option" where
  "progress_loop pb [] = None"
| "progress_loop pb (percent_complete # rest) =
     (case pb of
        None \<Rightarrow> progress_loop pb rest
      | Some f \<Rightarrow>
          (case f (percent_complete + 1) of
             Some x \<Rightarrow> Some x
           | None \<Rightarrow> progress_loop pb rest))"

definition analyze_content ::
  "env \<Rightarrow> string \<Rightarrow> bytes \<Rightarrow> progress_bar option \<Rightarrow> string option \<Rightarrow> world
     \<Rightarrow> (exn + result) \<times> world" where
  "analyze_content e modality file_bytes pb filename s =
     (case progress_loop pb [0..<100] of
        Some x \<Rightarrow> (Inl x, s)
      | None \<Rightarrow>
          (if modality \<in> set [''Image'', ''Video'']
           then (case image_score_ml e file_bytes s of (r, s1) \<Rightarrow> (Inr r, s1))
           else if modality = ''Audio''
           then (case audio_score_ml e file_bytes filename s of (r, s1) \<Rightarrow> (Inr r, s1))
           else (Inr (0, Dict [(''error'', PyStr ''Unsupported modality'')]), s)))"

definition analyze_text ::
  "env \<Rightarrow> string \<Rightarrow> progress_bar option \<Rightarrow> world \<Rightarrow> (exn + result) \<times> world" where
  "analyze_text e text pb s =
     (case progress_loop pb [0..<100] of
        Some x \<Rightarrow> (Inl x, s)
      | None \<Rightarrow> (case text_score_ml e text s of (r, s1) \<Rightarrow> (Inr r, s1)))"

section \<open>Vocabulary of the statements\<close>

definition contains_any :: "string list \<Rightarrow> string \<Rightarrow> bool" where
  "contains_any subs s = (\<exists>sub \<in> set subs. py_in sub s)"

text \<open>The confidence of the top entry lies in the unit interval.\<close>

definition unit_conf :: "classification list \<Rightarrow> bool" where
  "unit_conf out = (case out of [] \<Rightarrow> True | r # rest \<Rightarrow> 0 \<le> score r \<and> score r \<le> 1)"

definition confidences_ok :: "env \<Rightarrow> bool" where
  "confidences_ok e =
     ((\<forall>x out. image_pipe e x = Inr out \<longrightarrow> unit_conf out) \<and>
      (\<forall>x out. audio_pipe e x = Inr out \<longrightarrow> unit_conf out) \<and>
      (\<forall>x out. text_detector e x = Inr out \<longrightarrow> unit_conf out))"

text \<open>The progress updates of a call raise nothing; true of a call without a bar.\<close>

definition progress_quiet :: "progress_bar option \<Rightarrow> bool" where
  "progress_quiet pb = (progress_loop pb [0..<100] = None)"

text \<open>The handle of a capability is cached already or its model loads.\<close>

definition handle_ready :: "env \<Rightarrow> capability \<Rightarrow> world \<Rightarrow> bool" where
  "handle_ready e cap s = (cap \<in> set (cached s) \<or> load_pipeline e cap = None)"

definition events_of :: "capability \<Rightarrow> event set" where
  "events_of cap = {GetHandle cap, LoadModel cap, Infer cap}"

definition too_short :: "int \<Rightarrow> result" where
  "too_short n =
     (0, Dict [(''error'', PyStr ''Text is too short for accurate analysis''),
               (''text_length'', PyInt n)])"

definition unsupported :: result where
  "unsupported = (0, Dict [(''error'', PyStr ''Unsupported modality'')])"

text \<open>The invariant of a returned pair: an error entry goes with score 0.\<close>

definition result_ok :: "result \<Rightarrow> bool" where
  "result_ok r =
     ((\<not> has_error (snd r) \<longrightarrow> 0 \<le> fst r \<and> fst r \<le> 100) \<and>
      (has_error (snd r) \<longrightarrow> fst r = 0))"

text \<open>What a call added to the log, and that it only added events of one capability.\<close>

definition new_events :: "world \<Rightarrow> world \<Rightarrow> event list" where
  "new_events s s' = drop (length (trace s)) (trace s')"

definition only_events :: "capability \<Rightarrow> world \<Rightarrow> world \<Rightarrow> bool" where
  "only_events cap s s' =
     (take (length (trace s)) (trace s') = trace s \<and> set (new_events s s') \<subseteq> events_of cap)"

text \<open>
  The temporary file an audio call makes on line 38, if it gets that far: none
  without a filename or when \<^verbatim>\<open>NamedTemporaryFile\<close> itself raises.
\<close>

definition created_path :: "env \<Rightarrow> world \<Rightarrow> string option \<Rightarrow> path option" where
  "created_path e s filename =
     (case filename of
        None \<Rightarrow> None
      | Some fn \<Rightarrow>
          (case mktemp_err e (snd (splitext e fn)) of
             Some x \<Rightarrow> None
           | None \<Rightarrow> fresh_tmp s (snd (splitext e fn))))"

subsection \<open>Sample collaborators\<close>

text \<open>
  An environment in which every collaborator answers, one in which writing the
  temporary file raises, one whose decoders raise, one whose audio pipeline raises,
  and a fresh process with an empty disk.
\<close>

definition sample_env :: env where
  "sample_env =
     \<lparr>load_pipeline = (\<lambda>cap. None),
      image_open = (\<lambda>b. Inr b),
      image_pipe = (\<lambda>img. Inr [\<lparr>label = ''Realism'', score = 9 / 10\<rparr>,
                                 \<lparr>label = ''Deepfake'', score = 1 / 10\<rparr>]),
      librosa_load = (\<lambda>p b. Inr []),
      sf_write = (\<lambda>w. Inr []),
      audio_pipe = (\<lambda>b. Inr [\<lparr>label = ''spoof'', score = 3 / 4\<rparr>]),
      text_detector = (\<lambda>t. Inr [\<lparr>label = ''Fake'', score = 82 / 100\<rparr>]),
      splitext = (\<lambda>fn. (takeWhile (\<lambda>c. c \<noteq> CHR ''.'') fn, dropWhile (\<lambda>c. c \<noteq> CHR ''.'') fn)),
      mktemp_err = (\<lambda>sfx. None),
      write_err = (\<lambda>b. None),
      unlink_err = (\<lambda>p. None)\<rparr>"

definition write_fail_env :: env where
  "write_fail_env = sample_env\<lparr>write_err := (\<lambda>b. Some (Exception ''No space left on device''))\<rparr>"

definition decode_fail_env :: env where
  "decode_fail_env =
     sample_env\<lparr>image_open := (\<lambda>b. Inl (Exception ''cannot identify image file'')),
                 librosa_load := (\<lambda>p b. Inl (Exception ''Error opening file''))\<rparr>"

definition infer_fail_env :: env where
  "infer_fail_env = sample_env\<lparr>audio_pipe := (\<lambda>b. Inl (Exception ''CUDA out of memory''))\<rparr>"

definition fresh_world :: world where
  "fresh_world = \<lparr>files = (\<lambda>p. None), next_tmp = 0, cached = [], trace = []\<rparr>"

section \<open>Properties of the string helpers\<close>

lemma starts_with_prefix: "starts_with xs ys = prefix xs ys"
  by (induction xs ys rule: starts_with.induct) auto

lemma py_in_sublist: "py_in sub s = sublist sub s"
  by (induction s) (auto simp: starts_with_prefix sublist_Cons_right)

section \<open>Score normalisation by label polarity\<close>

lemma contains_any_2: "contains_any [a, b] s = (py_in a s \<or> py_in b s)"
  by (simp add: contains_any_def)

text \<open>
  C1 (as the code has it). For every top entry \<open>r\<close> with confidence \<open>score r\<close>:
  the image score is \<open>100 * (1 - c)\<close> when the lower-cased label contains "real" or
  "realism" and \<open>100 * c\<close> otherwise; the audio score likewise for "real" or
  "bonafide"; the text score is \<open>100 * (1 - c)\<close> when the label contains "real" or
  "human" and neither "fake" nor "generated", and \<open>100 * c\<close> when it contains neither
  "real" nor "human".
\<close>

theorem likelihood_by_polarity:
  "(contains_any [''real'', ''realism''] (lower (label r)) \<longrightarrow>
      image_likelihood r = 100 * (1 - score r)) \<and>
   (\<not> contains_any [''real'', ''realism''] (lower (label r)) \<longrightarrow>
      image_likelihood r = 100 * score r) \<and>
   (contains_any [''real'', ''bonafide''] (lower (label r)) \<longrightarrow>
      audio_likelihood r = 100 * (1 - score r)) \<and>
   (\<not> contains_any [''real'', ''bonafide''] (lower (label r)) \<longrightarrow>
      audio_likelihood r = 100 * score r) \<and>
   (contains_any [''real'', ''human''] (lower (label r)) \<and>
    \<not> contains_any [''fake'', ''generated''] (lower (label r)) \<longrightarrow>
      text_likelihood r = 100 * (1 - score r)) \<and>
   (\<not> contains_any [''real'', ''human''] (lower (label r)) \<longrightarrow>
      text_likelihood r = 100 * score r)"
  by (simp add: contains_any_2 image_likelihood_def audio_likelihood_def
                text_likelihood_def Let_def algebra_simps)

theorem likelihood_by_polarity_witness:
  "contains_any [''real'', ''realism''] (lower ''Realism'') \<and>
   image_likelihood \<lparr>label = ''Realism'', score = 9 / 10\<rparr> = 10 \<and>
   \<not> contains_any [''real'', ''bonafide''] (lower ''Spoof'') \<and>
   audio_likelihood \<lparr>label = ''Spoof'', score = 3 / 4\<rparr> = 75 \<and>
   contains_any [''real'', ''human''] (lower ''Human-written'') \<and>
   \<not> contains_any [''fake'', ''generated''] (lower ''Human-written'') \<and>
   text_likelihood \<lparr>label = ''Human-written'', score = 1 / 2\<rparr> = 50"
proof -
  have i: "contains_any [''real'', ''realism'']
             (lower (label \<lparr>label = ''Realism'', score = 9 / 10\<rparr>))"
    by code_simp
  have a: "\<not> contains_any [''real'', ''bonafide'']
               (lower (label \<lparr>label = ''Spoof'', score = 3 / 4\<rparr>))"
    by code_simp
  have t: "contains_any [''real'', ''human'']
             (lower (label \<lparr>label = ''Human-written'', score = 1 / 2\<rparr>)) \<and>
           \<not> contains_any [''fake'', ''generated'']
               (lower (label \<lparr>label = ''Human-written'', score = 1 / 2\<rparr>))"
    by code_simp
  have "image_likelihood \<lparr>label = ''Realism'', score = 9 / 10\<rparr>
          = 100 * (1 - score \<lparr>label = ''Realism'', score = 9 / 10\<rparr>)"
    using likelihood_by_polarity [of "\<lparr>label = ''Realism'', score = 9 / 10\<rparr>"] i by blast
  moreover have "audio_likelihood \<lparr>label = ''Spoof'', score = 3 / 4\<rparr>
          = 100 * score \<lparr>label = ''Spoof'', score = 3 / 4\<rparr>"
    using likelihood_by_polarity [of "\<lparr>label = ''Spoof'', score = 3 / 4\<rparr>"] a by blast
  moreover have "text_likelihood \<lparr>label = ''Human-written'', score = 1 / 2\<rparr>
          = 100 * (1 - score \<lparr>label = ''Human-written'', score = 1 / 2\<rparr>)"
    using likelihood_by_polarity [of "\<lparr>label = ''Human-written'', score = 1 / 2\<rparr>"] t by blast
  ultimately show ?thesis using i a t by simp
qed

text \<open>
  C1 as stated fails for text: a label that contains "real" and also "fake" takes
  the first branch of the text chain and keeps the confidence.
\<close>

theorem text_authentic_label_kept_direct:
  "contains_any [''real'', ''human''] (lower ''Fake or Real'') \<and>
   text_likelihood \<lparr>label = ''Fake or Real'', score = 9 / 10\<rparr> = 90 \<and>
   text_likelihood \<lparr>label = ''Fake or Real'', score = 9 / 10\<rparr> \<noteq> 100 * (1 - 9 / 10)"
  by code_simp

text \<open>
  C2 (as the code has it). The image and audio paths test only the authentic
  substrings, so an authentic match inverts the confidence whatever else the label
  contains. The text path tests "fake" and "generated" first: a label that contains
  one of them keeps the confidence even when it also contains "real" or "human", and
  an authentic match inverts only a label without them.
\<close>

theorem polarity_test_order:
  "(contains_any [''real'', ''realism''] (lower (label r)) \<and> contains_any fake (lower (label r)) \<longrightarrow>
      image_likelihood r = 100 * (1 - score r)) \<and>
   (contains_any [''real'', ''bonafide''] (lower (label r)) \<and> contains_any fake (lower (label r)) \<longrightarrow>
      audio_likelihood r = 100 * (1 - score r)) \<and>
   (contains_any [''fake'', ''generated''] (lower (label r)) \<and>
    contains_any [''real'', ''human''] (lower (label r)) \<longrightarrow>
      text_likelihood r = 100 * score r) \<and>
   (contains_any [''real'', ''human''] (lower (label r)) \<and>
    \<not> contains_any [''fake'', ''generated''] (lower (label r)) \<longrightarrow>
      text_likelihood r = 100 - 100 * score r)"
  by (simp add: contains_any_2 image_likelihood_def audio_likelihood_def
                text_likelihood_def Let_def algebra_simps)

theorem polarity_test_order_witness:
  "contains_any [''real'', ''realism''] (lower ''Unreal fake'') \<and>
   contains_any [''fake'', ''generated'', ''spoof''] (lower ''Unreal fake'') \<and>
   image_likelihood \<lparr>label = ''Unreal fake'', score = 4 / 5\<rparr> = 20 \<and>
   audio_likelihood \<lparr>label = ''Unreal fake'', score = 4 / 5\<rparr> = 20 \<and>
   text_likelihood \<lparr>label = ''Unreal fake'', score = 4 / 5\<rparr> = 80"
proof -
  have h: "contains_any [''real'', ''realism'']
             (lower (label \<lparr>label = ''Unreal fake'', score = 4 / 5\<rparr>)) \<and>
           contains_any [''real'', ''bonafide'']
             (lower (label \<lparr>label = ''Unreal fake'', score = 4 / 5\<rparr>)) \<and>
           contains_any [''real'', ''human'']
             (lower (label \<lparr>label = ''Unreal fake'', score = 4 / 5\<rparr>)) \<and>
           contains_any [''fake'', ''generated'']
             (lower (label \<lparr>label = ''Unreal fake'', score = 4 / 5\<rparr>)) \<and>
           contains_any [''fake'', ''generated'', ''spoof'']
             (lower (label \<lparr>label = ''Unreal fake'', score = 4 / 5\<rparr>))"
    by code_simp
  have "image_likelihood \<lparr>label = ''Unreal fake'', score = 4 / 5\<rparr>
          = 100 * (1 - score \<lparr>label = ''Unreal fake'', score = 4 / 5\<rparr>) \<and>
        audio_likelihood \<lparr>label = ''Unreal fake'', score = 4 / 5\<rparr>
          = 100 * (1 - score \<lparr>label = ''Unreal fake'', score = 4 / 5\<rparr>) \<and>
        text_likelihood \<lparr>label = ''Unreal fake'', score = 4 / 5\<rparr>
          = 100 * score \<lparr>label = ''Unreal fake'', score = 4 / 5\<rparr>"
    using polarity_test_order
            [of "\<lparr>label = ''Unreal fake'', score = 4 / 5\<rparr>" "[''fake'', ''generated'', ''spoof'']"] h
    by blast
  then show ?thesis using h by simp
qed

text \<open>
  C2 as stated fails for text: the label below contains the authentic "human" and
  the fake-indicating "generated", and the score is the confidence, not its inverse.
\<close>

theorem text_fake_tested_first:
  "contains_any [''real'', ''human''] (lower ''Generated, not Human'') \<and>
   contains_any [''fake'', ''generated''] (lower ''Generated, not Human'') \<and>
   text_likelihood \<lparr>label = ''Generated, not Human'', score = 3 / 4\<rparr> = 75 \<and>
   text_likelihood \<lparr>label = ''Generated, not Human'', score = 3 / 4\<rparr>
     \<noteq> 100 * (1 - 3 / 4)"
  by code_simp

section \<open>Helper facts\<close>

subsection \<open>Progress updates\<close>

lemma progress_loop_None: "progress_loop None ks = None"
  by (induction ks) auto

lemma progress_quiet_None: "progress_quiet None"
  by (simp add: progress_quiet_def progress_loop_None)

subsection \<open>The log and the disk\<close>

lemma only_eventsI:
  "trace s' = trace s @ evs \<Longrightarrow> set evs \<subseteq> events_of cap \<Longrightarrow> only_events cap s s'"
  by (simp add: only_events_def new_events_def)

lemma only_eventsD:
  "only_events cap s s' \<Longrightarrow> \<exists>evs. trace s' = trace s @ evs \<and> set evs \<subseteq> events_of cap"
  unfolding only_events_def new_events_def
  by (metis append_take_drop_id)

lemma only_events_refl: "only_events cap s s"
  by (rule only_eventsI [where evs = "[]"]) simp_all

lemma only_events_trans:
  "only_events cap s s1 \<Longrightarrow> only_events cap s1 s2 \<Longrightarrow> only_events cap s s2"
proof -
  assume "only_events cap s s1" and "only_events cap s1 s2"
  then obtain xs ys where "trace s1 = trace s @ xs" "set xs \<subseteq> events_of cap"
    "trace s2 = trace s1 @ ys" "set ys \<subseteq> events_of cap"
    by (blast dest: only_eventsD)
  then show ?thesis
    by (intro only_eventsI [where evs = "xs @ ys"]) simp_all
qed

lemma only_events_log: "ev \<in> events_of cap \<Longrightarrow> only_events cap s (log_event ev s)"
  by (rule only_eventsI [where evs = "[ev]"]) (simp_all add: log_event_def)

lemma only_events_trace_eq:
  "only_events cap s s1 \<Longrightarrow> trace s2 = trace s1 \<Longrightarrow> only_events cap s s2"
  by (simp add: only_events_def new_events_def)

lemma get_handle_trace:
  assumes "get_handle e cap s = (r, s')"
  shows "\<exists>evs. trace s' = trace s @ GetHandle cap # evs \<and> set evs \<subseteq> events_of cap"
  using assms
  by (auto simp: get_handle_def log_event_def events_of_def Let_def
        split: if_splits option.splits)

lemma get_handle_only: "get_handle e cap s = (r, s') \<Longrightarrow> only_events cap s s'"
proof -
  assume "get_handle e cap s = (r, s')"
  from get_handle_trace [OF this] obtain evs where
    "trace s' = trace s @ GetHandle cap # evs" "set evs \<subseteq> events_of cap" by blast
  then show ?thesis
    by (intro only_eventsI [where evs = "GetHandle cap # evs"]) (simp_all add: events_of_def)
qed

lemma get_handle_files: "get_handle e cap s = (r, s') \<Longrightarrow> files s' = files s"
  by (auto simp: get_handle_def log_event_def Let_def split: if_splits option.splits)

lemma log_event_files: "files (log_event ev s) = files s"
  by (simp add: log_event_def)

lemma image_body_only: "image_body e b s = (r, s') \<Longrightarrow> only_events Image s s'"
  unfolding image_body_def get_image_pipe_def Let_def
  by (auto split: prod.splits option.splits sum.splits list.splits
        dest!: get_handle_only
        intro: only_events_trans [OF _ only_events_log] simp: events_of_def)

lemma text_body_only: "text_body e t s = (r, s') \<Longrightarrow> only_events Text s s'"
  unfolding text_body_def get_text_detector_def Let_def
  by (auto split: prod.splits option.splits sum.splits list.splits
        dest!: get_handle_only
        intro: only_events_trans [OF _ only_events_log] simp: events_of_def)

lemma audio_body_only: "audio_body e p s = (r, s') \<Longrightarrow> only_events Audio s s'"
  unfolding audio_body_def get_audio_pipe_def Let_def
  by (auto split: prod.splits option.splits sum.splits list.splits
        dest!: get_handle_only
        intro: only_events_trans [OF _ only_events_log] only_events_refl simp: events_of_def)

lemma audio_body_files: "audio_body e p s = (r, s') \<Longrightarrow> files s' = files s"
  unfolding audio_body_def get_audio_pipe_def Let_def
  by (auto split: prod.splits option.splits sum.splits list.splits
        dest!: get_handle_files simp: log_event_files)

lemma audio_cleanup_trace: "audio_cleanup e p s = (c, s') \<Longrightarrow> trace s' = trace s"
  by (auto simp: audio_cleanup_def split: if_splits option.splits)

lemma audio_cleanup_files:
  "unlink_err e p = None \<Longrightarrow> audio_cleanup e p s = (c, s') \<Longrightarrow>
     c = None \<and> files s' = (files s)(p := None)"
  by (auto simp: audio_cleanup_def split: if_splits option.splits)

lemma audio_try_finally_files:
  assumes "unlink_err e p = None" and "audio_try_finally e p s = (r, s')"
  shows "files s' = (files s)(p := None)"
proof -
  obtain r1 s1 where b: "audio_body e p s = (r1, s1)" by (cases "audio_body e p s")
  obtain c s2 where c: "audio_cleanup e p s1 = (c, s2)" by (cases "audio_cleanup e p s1")
  from audio_cleanup_files [OF assms(1) c] audio_body_files [OF b]
  have "c = None" "files s2 = (files s)(p := None)" by simp_all
  with assms(2) b c show ?thesis by (simp add: audio_try_finally_def)
qed

lemma audio_try_finally_only:
  assumes "audio_try_finally e p s = (r, s')"
  shows "only_events Audio s s'"
proof -
  obtain r1 s1 where b: "audio_body e p s = (r1, s1)" by (cases "audio_body e p s")
  obtain c s2 where c: "audio_cleanup e p s1 = (c, s2)" by (cases "audio_cleanup e p s1")
  from assms b c have "s' = s2" by (auto simp: audio_try_finally_def split: option.splits)
  with only_events_trace_eq [OF audio_body_only [OF b] audio_cleanup_trace [OF c]]
  show ?thesis by simp
qed

lemma fresh_tmp_free: "fresh_tmp s sfx = Some p \<Longrightarrow> files s p = None"
  by (auto simp: fresh_tmp_def find_Some_iff)

lemma fresh_tmp_first:
  assumes "files s (next_tmp s, sfx) = None"
  shows "fresh_tmp s sfx = Some (next_tmp s, sfx)"
proof -
  have "next_tmp s < next_tmp s + TMP_MAX" by (simp add: TMP_MAX_def)
  then have "[next_tmp s ..< next_tmp s + TMP_MAX]
               = next_tmp s # [Suc (next_tmp s) ..< next_tmp s + TMP_MAX]"
    by (rule upt_conv_Cons)
  with assms show ?thesis by (simp add: fresh_tmp_def)
qed

lemma created_path_free: "created_path e s filename = Some p \<Longrightarrow> files s p = None"
  by (auto simp: created_path_def split: option.splits dest: fresh_tmp_free)

lemma audio_outer_created:
  "created_path e s filename = Some p \<Longrightarrow>
   audio_outer e b filename s =
     (case write_err e b of
        Some x \<Rightarrow> (Inl x, s\<lparr>files := (files s)(p \<mapsto> []), next_tmp := Suc (fst p)\<rparr>)
      | None \<Rightarrow>
          audio_try_finally e p
            (s\<lparr>next_tmp := Suc (fst p), files := (files s)(p \<mapsto> b)\<rparr>))"
  by (auto simp: created_path_def audio_outer_def Let_def split: option.splits)

lemma audio_outer_not_created:
  "created_path e s filename = None \<Longrightarrow> \<exists>x. audio_outer e b filename s = (Inl x, s)"
  by (auto simp: created_path_def audio_outer_def Let_def split: option.splits)

lemma audio_outer_files:
  assumes "write_err e b = None"
    and "\<And>p. created_path e s filename = Some p \<Longrightarrow> unlink_err e p = None"
    and "audio_outer e b filename s = (r, s')"
  shows "files s' = files s"
proof (cases "created_path e s filename")
  case None
  from audio_outer_not_created [OF this, of b] assms(3) show ?thesis by auto
next
  case (Some p)
  from assms(2) [OF Some] have u: "unlink_err e p = None" .
  from assms(3) assms(1) audio_outer_created [OF Some, of b]
  have "audio_try_finally e p (s\<lparr>next_tmp := Suc (fst p), files := (files s)(p \<mapsto> b)\<rparr>)
          = (r, s')"
    by simp
  from audio_try_finally_files [OF u this] created_path_free [OF Some] show ?thesis
    by (auto simp: fun_eq_iff)
qed

lemma audio_outer_only:
  assumes "audio_outer e b filename s = (r, s')"
  shows "only_events Audio s s'"
proof (cases "created_path e s filename")
  case None
  from audio_outer_not_created [OF this, of b] assms have "trace s' = trace s" by auto
  from only_events_trace_eq [OF only_events_refl this] show ?thesis .
next
  case (Some p)
  show ?thesis
  proof (cases "write_err e b")
    case None
    with assms audio_outer_created [OF Some, of b]
    have "audio_try_finally e p (s\<lparr>next_tmp := Suc (fst p), files := (files s)(p \<mapsto> b)\<rparr>)
            = (r, s')"
      by simp
    from audio_try_finally_only [OF this] show ?thesis
      by (simp add: only_events_def new_events_def)
  next
    case (Some x)
    with assms audio_outer_created [OF \<open>created_path e s filename = Some p\<close>, of b]
    have "trace s' = trace s" by auto
    from only_events_trace_eq [OF only_events_refl this] show ?thesis .
  qed
qed

subsection \<open>Scores stay in range\<close>

lemma image_likelihood_bounds:
  "0 \<le> score r \<Longrightarrow> score r \<le> 1 \<Longrightarrow> 0 \<le> image_likelihood r \<and> image_likelihood r \<le> 100"
  by (simp add: image_likelihood_def Let_def)

lemma audio_likelihood_bounds:
  "0 \<le> score r \<Longrightarrow> score r \<le> 1 \<Longrightarrow> 0 \<le> audio_likelihood r \<and> audio_likelihood r \<le> 100"
  by (simp add: audio_likelihood_def Let_def)

lemma text_likelihood_bounds:
  "0 \<le> score r \<Longrightarrow> score r \<le> 1 \<Longrightarrow> 0 \<le> text_likelihood r \<and> text_likelihood r \<le> 100"
  by (simp add: text_likelihood_def Let_def)

lemma error_result_ok: "result_ok (error_result what x)"
  by (simp add: result_ok_def error_result_def)

lemma dict_error_ok: "result_ok (0, Dict ((''error'', v) # kvs))"
  by (simp add: result_ok_def)

lemma raw_result_ok:
  "unit_conf (r # rest) \<Longrightarrow> 0 \<le> lk \<and> lk \<le> 100 \<Longrightarrow> result_ok (lk, Raw (r # rest))"
  by (simp add: result_ok_def)

lemma confidences_image: "confidences_ok e \<Longrightarrow> image_pipe e x = Inr out \<Longrightarrow> unit_conf out"
  by (simp add: confidences_ok_def)

lemma confidences_audio: "confidences_ok e \<Longrightarrow> audio_pipe e x = Inr out \<Longrightarrow> unit_conf out"
  by (simp add: confidences_ok_def)

lemma confidences_text: "confidences_ok e \<Longrightarrow> text_detector e x = Inr out \<Longrightarrow> unit_conf out"
  by (simp add: confidences_ok_def)

lemma unit_conf_Cons: "unit_conf (r # rest) = (0 \<le> score r \<and> score r \<le> 1)"
  by (simp add: unit_conf_def)

lemma image_body_ok:
  assumes "confidences_ok e" and "image_body e b s = (Inr r, s')"
  shows "result_ok r"
proof -
  from assms(2) obtain pil t rest where
    out: "image_pipe e pil = Inr (t # rest)" and r: "r = (image_likelihood t, Raw (t # rest))"
    by (auto simp: image_body_def Let_def
          split: prod.splits option.splits sum.splits list.splits)
  from confidences_image [OF assms(1) out] have "0 \<le> score t \<and> score t \<le> 1"
    by (simp add: unit_conf_Cons)
  then show ?thesis
    using image_likelihood_bounds [of t] by (simp add: r result_ok_def)
qed

lemma image_score_ml_ok:
  assumes "confidences_ok e" and "image_score_ml e b s = (r, s')"
  shows "result_ok r"
  using assms image_body_ok [OF assms(1)]
  by (auto simp: image_score_ml_def error_result_ok split: prod.splits sum.splits)

lemma text_body_ok:
  assumes "confidences_ok e" and "text_body e t s = (Inr r, s')"
  shows "result_ok r"
proof -
  from assms(2) obtain c rest where
    out: "text_detector e (take 1000 t) = Inr (c # rest)" and
    r: "r = (text_likelihood c,
             Dict [(''detector_label'', PyStr (lower (label c))),
                   (''detector_confidence'', PyFloat (score c * 100))])"
    by (auto simp: text_body_def Let_def
          split: prod.splits option.splits sum.splits list.splits)
  from confidences_text [OF assms(1) out] have "0 \<le> score c \<and> score c \<le> 1"
    by (simp add: unit_conf_Cons)
  then show ?thesis
    using text_likelihood_bounds [of c] by (simp add: r result_ok_def)
qed

lemma text_score_ml_ok:
  assumes "confidences_ok e" and "text_score_ml e t s = (r, s')"
  shows "result_ok r"
  using assms text_body_ok [OF assms(1)]
  by (auto simp: text_score_ml_def error_result_ok dict_error_ok
        split: prod.splits sum.splits if_splits)

lemma audio_body_ok:
  assumes "confidences_ok e" and "audio_body e p s = (Inr r, s')"
  shows "result_ok r"
proof -
  from assms(2) obtain wav c rest where
    out: "audio_pipe e wav = Inr (c # rest)" and r: "r = (audio_likelihood c, Raw (c # rest))"
    by (auto simp: audio_body_def Let_def
          split: prod.splits option.splits sum.splits list.splits)
  from confidences_audio [OF assms(1) out] have "0 \<le> score c \<and> score c \<le> 1"
    by (simp add: unit_conf_Cons)
  then show ?thesis
    using audio_likelihood_bounds [of c] by (simp add: r result_ok_def)
qed

lemma audio_try_finally_ok:
  assumes "confidences_ok e" and "audio_try_finally e p s = (Inr r, s')"
  shows "result_ok r"
  using assms(2) audio_body_ok [OF assms(1)]
  by (auto simp: audio_try_finally_def split: prod.splits option.splits)

lemma audio_outer_ok:
  assumes "confidences_ok e" and "audio_outer e b fn s = (Inr r, s')"
  shows "result_ok r"
  using assms(2) audio_try_finally_ok [OF assms(1)]
  by (auto simp: audio_outer_def Let_def split: option.splits)

lemma process_audio_file_ok:
  assumes "confidences_ok e" and "process_audio_file e b fn s = (r, s')"
  shows "result_ok r"
  using assms(2) audio_outer_ok [OF assms(1)]
  by (auto simp: process_audio_file_def error_result_ok split: prod.splits sum.splits)

subsection \<open>The analyzers and the facade\<close>

lemma image_score_ml_only: "image_score_ml e b s = (r, s') \<Longrightarrow> only_events Image s s'"
  by (auto simp: image_score_ml_def split: prod.splits sum.splits dest: image_body_only)

lemma process_audio_file_only:
  "process_audio_file e b fn s = (r, s') \<Longrightarrow> only_events Audio s s'"
  by (auto simp: process_audio_file_def split: prod.splits sum.splits dest: audio_outer_only)

lemma text_score_ml_only: "text_score_ml e t s = (r, s') \<Longrightarrow> only_events Text s s'"
  by (auto simp: text_score_ml_def only_events_refl
        split: prod.splits sum.splits if_splits dest: text_body_only)

lemma process_audio_file_files:
  assumes "write_err e b = None"
    and "\<And>p. created_path e s filename = Some p \<Longrightarrow> unlink_err e p = None"
    and "process_audio_file e b filename s = (r, s')"
  shows "files s' = files s"
proof -
  obtain r1 where "audio_outer e b filename s = (r1, s')"
    using assms(3) by (auto simp: process_audio_file_def split: prod.splits sum.splits)
  from audio_outer_files [OF assms(1) assms(2) this] show ?thesis .
qed

lemma analyze_content_quiet:
  "progress_quiet pb \<Longrightarrow>
   analyze_content e m b pb fn s =
     (if m = ''Image'' \<or> m = ''Video''
      then (Inr (fst (image_score_ml e b s)), snd (image_score_ml e b s))
      else if m = ''Audio''
      then (Inr (fst (process_audio_file e b fn s)), snd (process_audio_file e b fn s))
      else (Inr unsupported, s))"
  by (simp add: analyze_content_def progress_quiet_def audio_score_ml_def unsupported_def
        split: prod.splits)

lemma analyze_text_quiet:
  "progress_quiet pb \<Longrightarrow>
   analyze_text e t pb s = (Inr (fst (text_score_ml e t s)), snd (text_score_ml e t s))"
  by (simp add: analyze_text_def progress_quiet_def split: prod.splits)

subsection \<open>What a failing collaborator turns into\<close>

lemma get_handle_ready:
  "handle_ready e cap s \<Longrightarrow> \<exists>s1. get_handle e cap s = (None, s1)"
  by (auto simp: handle_ready_def get_handle_def log_event_def Let_def split: option.splits)

lemma get_handle_load_failure:
  "cap \<notin> set (cached s) \<Longrightarrow> load_pipeline e cap = Some x \<Longrightarrow>
     \<exists>s1. get_handle e cap s = (Some x, s1)"
  by (simp add: get_handle_def log_event_def Let_def)

lemma handle_ready_cached: "cached s' = cached s \<Longrightarrow> handle_ready e cap s' = handle_ready e cap s"
  by (simp add: handle_ready_def)

lemma image_load_failure:
  assumes "Image \<notin> set (cached s)" and "load_pipeline e Image = Some x"
  shows "fst (image_score_ml e b s)
           = (0, Dict [(''error'', PyStr (''Error processing image: '' @ str x))])"
proof -
  from get_handle_load_failure [OF assms] obtain s1 where "get_handle e Image s = (Some x, s1)"
    by blast
  then show ?thesis
    by (simp add: image_score_ml_def image_body_def get_image_pipe_def error_result_def)
qed

lemma image_decode_failure:
  assumes "handle_ready e Image s" and "image_open e b = Inl x"
  shows "fst (image_score_ml e b s)
           = (0, Dict [(''error'', PyStr (''Error processing image: '' @ str x))])"
proof -
  from get_handle_ready [OF assms(1)] obtain s1 where "get_handle e Image s = (None, s1)"
    by blast
  with assms(2) show ?thesis
    by (simp add: image_score_ml_def image_body_def get_image_pipe_def error_result_def)
qed

lemma image_inference_failure:
  assumes "handle_ready e Image s" and "image_open e b = Inr pil" and "image_pipe e pil = Inl x"
  shows "fst (image_score_ml e b s)
           = (0, Dict [(''error'', PyStr (''Error processing image: '' @ str x))])"
proof -
  from get_handle_ready [OF assms(1)] obtain s1 where "get_handle e Image s = (None, s1)"
    by blast
  with assms(2,3) show ?thesis
    by (simp add: image_score_ml_def image_body_def get_image_pipe_def error_result_def Let_def)
qed

lemma text_inference_failure:
  assumes "50 \<le> length (strip t)" and "handle_ready e Text s"
    and "text_detector e (take 1000 t) = Inl x"
  shows "fst (text_score_ml e t s)
           = (0, Dict [(''error'', PyStr (''Error processing text: '' @ str x))])"
proof -
  from get_handle_ready [OF assms(2)] obtain s1 where "get_handle e Text s = (None, s1)"
    by blast
  with assms(1,3) show ?thesis
    by (simp add: text_score_ml_def text_body_def get_text_detector_def error_result_def Let_def)
qed

lemma audio_no_filename:
  "fst (process_audio_file e b None s)
     = (0, Dict [(''error'', PyStr (''Error processing audio: '' @
                    ''expected str, bytes or os.PathLike object, not NoneType''))])"
  by (simp add: process_audio_file_def audio_outer_def error_result_def)

lemma audio_decode_failure:
  assumes "created_path e s filename = Some p" and "write_err e b = None"
    and "unlink_err e p = None" and "librosa_load e p b = Inl x"
  shows "fst (process_audio_file e b filename s)
           = (0, Dict [(''error'', PyStr (''Error processing audio: '' @ str x))])"
  using assms(2,3,4) audio_outer_created [OF assms(1), of b]
  by (simp add: process_audio_file_def audio_try_finally_def audio_body_def audio_cleanup_def
        error_result_def)

lemma audio_inference_failure:
  assumes "created_path e s filename = Some p" and "write_err e b = None"
    and "unlink_err e p = None" and "librosa_load e p b = Inr y" and "sf_write e y = Inr wav"
    and "handle_ready e Audio s" and "audio_pipe e wav = Inl x"
  shows "fst (process_audio_file e b filename s)
           = (0, Dict [(''error'', PyStr (''Error processing audio: '' @ str x))])"
proof -
  define s2 where "s2 = s\<lparr>next_tmp := Suc (fst p), files := (files s)(p \<mapsto> b)\<rparr>"
  have f2: "files s2 p = Some b" and c2: "cached s2 = cached s"
    by (simp_all add: s2_def)
  from assms(6) c2 have "handle_ready e Audio s2" by (simp add: handle_ready_def)
  from get_handle_ready [OF this] obtain s3 where g: "get_handle e Audio s2 = (None, s3)"
    by blast
  from get_handle_files [OF g] f2 have f3: "files s3 p = Some b" by simp
  have body: "audio_body e p s2 = (Inl x, log_event (Infer Audio) s3)"
    by (simp add: audio_body_def get_audio_pipe_def Let_def f2 g assms(4,5,7))
  have "files (log_event (Infer Audio) s3) p = Some b"
    by (simp add: log_event_files f3)
  then have "\<exists>s4. audio_cleanup e p (log_event (Infer Audio) s3) = (None, s4)"
    by (simp add: audio_cleanup_def assms(3))
  then obtain s4 where "audio_try_finally e p s2 = (Inl x, s4)"
    by (auto simp: audio_try_finally_def body)
  then have "audio_outer e b filename s = (Inl x, s4)"
    by (simp add: audio_outer_created [OF assms(1), of b] assms(2) s2_def)
  then show ?thesis
    by (simp add: process_audio_file_def error_result_def)
qed

text \<open>
  With the write and the removal working, an audio call leaves the disk as it found
  it on every path: success, decode failure, encode failure, handle failure,
  inference failure and empty output.
\<close>

lemma audio_tmp_released_when_healthy:
  assumes "progress_quiet pb"
    and "write_err e b = None"
    and "\<And>p. created_path e s filename = Some p \<Longrightarrow> unlink_err e p = None"
    and "analyze_content e ''Audio'' b pb filename s = (r, s')"
  shows "files s' = files s"
proof -
  from assms(1,4)
  have "process_audio_file e b filename s = (fst (process_audio_file e b filename s), s')"
    by (auto simp: analyze_content_quiet prod_eq_iff)
  from process_audio_file_files [OF assms(2) assms(3) this] show ?thesis .
qed

text \<open>
  An exception while writing the temporary file is caught by the outer handler
  only: the inner \<^verbatim>\<open>try\<close> is never entered, \<^verbatim>\<open>os.unlink\<close> is never called
  and the file stays on disk.
\<close>

lemma audio_write_failure_keeps_file:
  assumes "progress_quiet pb"
    and "created_path e s filename = Some p"
    and "write_err e b = Some x"
  shows "analyze_content e ''Audio'' b pb filename s =
           (Inr (0, Dict [(''error'', PyStr (''Error processing audio: '' @ str x))]),
            s\<lparr>files := (files s)(p \<mapsto> []), next_tmp := Suc (fst p)\<rparr>)"
  using assms(1,3) audio_outer_created [OF assms(2), of b]
  by (simp add: analyze_content_quiet process_audio_file_def error_result_def)

subsection \<open>Runs of the sample collaborators\<close>

lemma lower_Realism: "lower ''Realism'' = ''realism''"
  by code_simp

lemma lower_spoof: "lower ''spoof'' = ''spoof''"
  by code_simp

lemma lower_Fake: "lower ''Fake'' = ''fake''"
  by code_simp

lemmas run_defs =
  image_score_ml_def image_body_def get_image_pipe_def get_handle_def log_event_def
  process_audio_file_def audio_outer_def audio_try_finally_def audio_body_def
  audio_cleanup_def get_audio_pipe_def
  text_score_ml_def text_body_def get_text_detector_def
  error_result_def index_error_def

lemmas sample_defs =
  sample_env_def fresh_world_def write_fail_env_def decode_fail_env_def infer_fail_env_def

lemma sample_image_run:
  "analyze_content sample_env ''Image'' [] None None fresh_world =
     (Inr (10, Raw [\<lparr>label = ''Realism'', score = 9 / 10\<rparr>,
                    \<lparr>label = ''Deepfake'', score = 1 / 10\<rparr>]),
      fresh_world\<lparr>cached := [Image],
                  trace := [GetHandle Image, LoadModel Image, Infer Image]\<rparr>)"
  by (simp add: analyze_content_quiet progress_quiet_None run_defs sample_defs
        image_likelihood_def lower_Realism)

lemma sample_audio_run:
  "analyze_content sample_env ''Audio'' [1, 2, 3] None (Some ''clip.wav'') fresh_world =
     (Inr (75, Raw [\<lparr>label = ''spoof'', score = 3 / 4\<rparr>]),
      fresh_world\<lparr>next_tmp := 1, cached := [Audio],
                  trace := [GetHandle Audio, LoadModel Audio, Infer Audio]\<rparr>)"
  by (simp add: analyze_content_quiet progress_quiet_None run_defs sample_defs fresh_tmp_first
        audio_likelihood_def lower_spoof)

lemma sample_audio_decode_failure:
  "analyze_content decode_fail_env ''Audio'' [1, 2, 3] None (Some ''clip.wav'') fresh_world =
     (Inr (0, Dict [(''error'', PyStr ''Error processing audio: Error opening file'')]),
      fresh_world\<lparr>next_tmp := 1\<rparr>)"
  by (simp add: analyze_content_quiet progress_quiet_None run_defs sample_defs fresh_tmp_first)

lemma sample_audio_infer_failure:
  "analyze_content infer_fail_env ''Audio'' [1, 2, 3] None (Some ''clip.wav'') fresh_world =
     (Inr (0, Dict [(''error'', PyStr ''Error processing audio: CUDA out of memory'')]),
      fresh_world\<lparr>next_tmp := 1, cached := [Audio],
                  trace := [GetHandle Audio, LoadModel Audio, Infer Audio]\<rparr>)"
  by (simp add: analyze_content_quiet progress_quiet_None run_defs sample_defs fresh_tmp_first)

lemma sample_text_run:
  "analyze_text sample_env (replicate 60 (CHR ''a'')) None fresh_world =
     (Inr (82, Dict [(''detector_label'', PyStr ''fake''),
                     (''detector_confidence'', PyFloat 82)]),
      fresh_world\<lparr>cached := [Text],
                  trace := [GetHandle Text, LoadModel Text, Infer Text]\<rparr>)"
proof -
  have "length (strip (replicate 60 (CHR ''a''))) = 60" by code_simp
  then show ?thesis
    by (simp add: analyze_text_quiet progress_quiet_None run_defs sample_defs
          text_likelihood_def lower_Fake)
qed

lemma sample_short_text_run:
  "analyze_text sample_env ''short'' None fresh_world = (Inr (too_short 5), fresh_world)"
proof -
  have "length (strip ''short'') = 5" by code_simp
  then show ?thesis
    by (simp add: analyze_text_quiet progress_quiet_None text_score_ml_def too_short_def)
qed

lemma sample_image_decode_failure:
  "image_body decode_fail_env [] fresh_world =
     (Inl (Exception ''cannot identify image file''),
      fresh_world\<lparr>cached := [Image], trace := [GetHandle Image, LoadModel Image]\<rparr>)"
  by (simp add: run_defs sample_defs)

lemma sample_confidences_ok: "confidences_ok sample_env"
  by (auto simp: confidences_ok_def sample_env_def unit_conf_def)

section \<open>The result invariant\<close>

text \<open>
  C3. When the confidence of every pipeline's top entry lies in \<open>[0, 1]\<close>, every
  result \<open>(score, details)\<close> returned by \<open>analyze_content\<close> or \<open>analyze_text\<close> has
  \<open>0 \<le> score \<le> 100\<close> if \<open>details\<close> has no error entry and \<open>score = 0\<close> if it has
  one.
\<close>

theorem result_score_invariant:
  assumes "confidences_ok e"
  shows "(analyze_content e m b pb fn s = (Inr (sc, d), s') \<longrightarrow>
            (\<not> has_error d \<longrightarrow> 0 \<le> sc \<and> sc \<le> 100) \<and> (has_error d \<longrightarrow> sc = 0)) \<and>
         (analyze_text e t pb s = (Inr (sc, d), s') \<longrightarrow>
            (\<not> has_error d \<longrightarrow> 0 \<le> sc \<and> sc \<le> 100) \<and> (has_error d \<longrightarrow> sc = 0))"
proof (intro conjI impI)
  assume a: "analyze_content e m b pb fn s = (Inr (sc, d), s')"
  have "result_ok (sc, d)"
    using a image_score_ml_ok [OF assms] process_audio_file_ok [OF assms]
    by (auto simp: analyze_content_def audio_score_ml_def dict_error_ok
          split: option.splits if_splits prod.splits)
  then show "\<not> has_error d \<Longrightarrow> 0 \<le> sc" "\<not> has_error d \<Longrightarrow> sc \<le> 100" "has_error d \<Longrightarrow> sc = 0"
    by (simp_all add: result_ok_def)
next
  assume a: "analyze_text e t pb s = (Inr (sc, d), s')"
  have "result_ok (sc, d)"
    using a text_score_ml_ok [OF assms]
    by (auto simp: analyze_text_def split: option.splits prod.splits)
  then show "\<not> has_error d \<Longrightarrow> 0 \<le> sc" "\<not> has_error d \<Longrightarrow> sc \<le> 100" "has_error d \<Longrightarrow> sc = 0"
    by (simp_all add: result_ok_def)
qed

theorem result_score_invariant_witness:
  "confidences_ok sample_env \<and>
   analyze_content sample_env ''Image'' [] None None fresh_world =
     (Inr (10, Raw [\<lparr>label = ''Realism'', score = 9 / 10\<rparr>,
                    \<lparr>label = ''Deepfake'', score = 1 / 10\<rparr>]),
      fresh_world\<lparr>cached := [Image],
                  trace := [GetHandle Image, LoadModel Image, Infer Image]\<rparr>) \<and>
   \<not> has_error (Raw [\<lparr>label = ''Realism'', score = 9 / 10\<rparr>,
                      \<lparr>label = ''Deepfake'', score = 1 / 10\<rparr>]) \<and>
   (0 :: real) \<le> 10 \<and> (10 :: real) \<le> 100 \<and>
   analyze_text sample_env ''short'' None fresh_world = (Inr (too_short 5), fresh_world) \<and>
   has_error (snd (too_short 5)) \<and> fst (too_short 5) = 0"
proof -
  note inv = result_score_invariant [OF sample_confidences_ok]
  have e: "has_error (snd (too_short 5))" by (simp add: too_short_def)
  have t: "analyze_text sample_env ''short'' None fresh_world
             = (Inr (fst (too_short 5), snd (too_short 5)), fresh_world)"
    by (simp add: sample_short_text_run)
  have "(0 :: real) \<le> 10 \<and> (10 :: real) \<le> 100"
    using inv [where m = "''Image''" and b = "[]" and pb = None and fn = None
                 and s = fresh_world and sc = 10] sample_image_run
    by simp
  moreover have "fst (too_short 5) = 0"
    using inv [where t = "''short''" and pb = None and s = fresh_world
                 and sc = "fst (too_short 5)" and d = "snd (too_short 5)"
                 and s' = fresh_world] t e
    by blast
  ultimately show ?thesis
    using sample_confidences_ok sample_image_run sample_short_text_run e by simp
qed

section \<open>The facade never raises\<close>

text \<open>
  C4. Whenever the progress updates raise nothing (in particular without a
  progress bar), \<open>analyze_content\<close> and \<open>analyze_text\<close> return a pair of a score
  and details for every modality, input, filename (present or absent), text,
  collaborator behaviour and state. Every failure comes back as score 0 with the
  details \<^verbatim>\<open>{"error": "Error processing <kind>: <message>"}\<close>: an exception \<open>x\<close>
  raised anywhere inside an analyzer, and in particular a model that does not load,
  a decoder that raises, a pipeline that raises and a missing filename.
\<close>

theorem analyze_total:
  assumes "progress_quiet pb"
  shows "(\<exists>sc d s'. analyze_content e m b pb fn s = (Inr (sc, d), s')) \<and>
         (\<exists>sc d s'. analyze_text e t pb s = (Inr (sc, d), s')) \<and>
         (\<forall>x s1. (m = ''Image'' \<or> m = ''Video'') \<and> image_body e b s = (Inl x, s1) \<longrightarrow>
            analyze_content e m b pb fn s
              = (Inr (0, Dict [(''error'', PyStr (''Error processing image: '' @ str x))]), s1)) \<and>
         (\<forall>x s1. audio_outer e b fn s = (Inl x, s1) \<longrightarrow>
            analyze_content e ''Audio'' b pb fn s
              = (Inr (0, Dict [(''error'', PyStr (''Error processing audio: '' @ str x))]), s1)) \<and>
         (\<forall>x s1. 50 \<le> length (strip t) \<and> text_body e t s = (Inl x, s1) \<longrightarrow>
            analyze_text e t pb s
              = (Inr (0, Dict [(''error'', PyStr (''Error processing text: '' @ str x))]), s1)) \<and>
         (\<forall>x. Image \<notin> set (cached s) \<and> load_pipeline e Image = Some x \<longrightarrow>
            fst (analyze_content e ''Image'' b pb fn s)
              = Inr (0, Dict [(''error'', PyStr (''Error processing image: '' @ str x))])) \<and>
         (\<forall>x. handle_ready e Image s \<and> image_open e b = Inl x \<longrightarrow>
            fst (analyze_content e ''Image'' b pb fn s)
              = Inr (0, Dict [(''error'', PyStr (''Error processing image: '' @ str x))])) \<and>
         (\<forall>x pil. handle_ready e Image s \<and> image_open e b = Inr pil \<and>
                   image_pipe e pil = Inl x \<longrightarrow>
            fst (analyze_content e ''Image'' b pb fn s)
              = Inr (0, Dict [(''error'', PyStr (''Error processing image: '' @ str x))])) \<and>
         fst (analyze_content e ''Audio'' b pb None s)
           = Inr (0, Dict [(''error'', PyStr (''Error processing audio: '' @
                     ''expected str, bytes or os.PathLike object, not NoneType''))]) \<and>
         (\<forall>x p. created_path e s fn = Some p \<and> write_err e b = None \<and>
                 unlink_err e p = None \<and> librosa_load e p b = Inl x \<longrightarrow>
            fst (analyze_content e ''Audio'' b pb fn s)
              = Inr (0, Dict [(''error'', PyStr (''Error processing audio: '' @ str x))])) \<and>
         (\<forall>x p y wav. created_path e s fn = Some p \<and> write_err e b = None \<and>
                 unlink_err e p = None \<and> librosa_load e p b = Inr y \<and>
                 sf_write e y = Inr wav \<and> handle_ready e Audio s \<and>
                 audio_pipe e wav = Inl x \<longrightarrow>
            fst (analyze_content e ''Audio'' b pb fn s)
              = Inr (0, Dict [(''error'', PyStr (''Error processing audio: '' @ str x))])) \<and>
         (\<forall>x. 50 \<le> length (strip t) \<and> handle_ready e Text s \<and>
              text_detector e (take 1000 t) = Inl x \<longrightarrow>
            fst (analyze_text e t pb s)
              = Inr (0, Dict [(''error'', PyStr (''Error processing text: '' @ str x))]))"
proof -
  note q = analyze_content_quiet [OF assms] analyze_text_quiet [OF assms]
  have total: "(\<exists>sc d s'. analyze_content e m b pb fn s = (Inr (sc, d), s'))"
    "(\<exists>sc d s'. analyze_text e t pb s = (Inr (sc, d), s'))"
    by (simp_all add: q unsupported_def)
  have body: "\<And>x s1. (m = ''Image'' \<or> m = ''Video'') \<and> image_body e b s = (Inl x, s1) \<Longrightarrow>
            analyze_content e m b pb fn s
              = (Inr (0, Dict [(''error'', PyStr (''Error processing image: '' @ str x))]), s1)"
    "\<And>x s1. audio_outer e b fn s = (Inl x, s1) \<Longrightarrow>
            analyze_content e ''Audio'' b pb fn s
              = (Inr (0, Dict [(''error'', PyStr (''Error processing audio: '' @ str x))]), s1)"
    "\<And>x s1. 50 \<le> length (strip t) \<and> text_body e t s = (Inl x, s1) \<Longrightarrow>
            analyze_text e t pb s
              = (Inr (0, Dict [(''error'', PyStr (''Error processing text: '' @ str x))]), s1)"
    by (auto simp: q image_score_ml_def process_audio_file_def text_score_ml_def
          error_result_def)
  have image: "\<And>x. Image \<notin> set (cached s) \<and> load_pipeline e Image = Some x \<Longrightarrow>
            fst (analyze_content e ''Image'' b pb fn s)
              = Inr (0, Dict [(''error'', PyStr (''Error processing image: '' @ str x))])"
    "\<And>x. handle_ready e Image s \<and> image_open e b = Inl x \<Longrightarrow>
            fst (analyze_content e ''Image'' b pb fn s)
              = Inr (0, Dict [(''error'', PyStr (''Error processing image: '' @ str x))])"
    "\<And>x pil. handle_ready e Image s \<and> image_open e b = Inr pil \<and>
                   image_pipe e pil = Inl x \<Longrightarrow>
            fst (analyze_content e ''Image'' b pb fn s)
              = Inr (0, Dict [(''error'', PyStr (''Error processing image: '' @ str x))])"
    by (simp_all add: q image_load_failure image_decode_failure image_inference_failure)
  have audio: "fst (analyze_content e ''Audio'' b pb None s)
           = Inr (0, Dict [(''error'', PyStr (''Error processing audio: '' @
                     ''expected str, bytes or os.PathLike object, not NoneType''))])"
    "\<And>x p. created_path e s fn = Some p \<and> write_err e b = None \<and>
                 unlink_err e p = None \<and> librosa_load e p b = Inl x \<Longrightarrow>
            fst (analyze_content e ''Audio'' b pb fn s)
              = Inr (0, Dict [(''error'', PyStr (''Error processing audio: '' @ str x))])"
    "\<And>x p y wav. created_path e s fn = Some p \<and> write_err e b = None \<and>
                 unlink_err e p = None \<and> librosa_load e p b = Inr y \<and>
                 sf_write e y = Inr wav \<and> handle_ready e Audio s \<and>
                 audio_pipe e wav = Inl x \<Longrightarrow>
            fst (analyze_content e ''Audio'' b pb fn s)
              = Inr (0, Dict [(''error'', PyStr (''Error processing audio: '' @ str x))])"
    using audio_no_filename [of e b s]
    by (simp_all add: q audio_decode_failure audio_inference_failure)
  have detector: "\<And>x. 50 \<le> length (strip t) \<and> handle_ready e Text s \<and>
              text_detector e (take 1000 t) = Inl x \<Longrightarrow>
            fst (analyze_text e t pb s)
              = Inr (0, Dict [(''error'', PyStr (''Error processing text: '' @ str x))])"
    by (simp add: q text_inference_failure)
  from total body image audio detector show ?thesis by blast
qed

theorem analyze_total_witness:
  "progress_quiet None \<and>
   (\<exists>sc d s'. analyze_content decode_fail_env ''Audio'' [1, 2, 3] None (Some ''clip.wav'')
                 fresh_world = (Inr (sc, d), s')) \<and>
   (\<exists>sc d s'. analyze_text decode_fail_env ''short'' None fresh_world = (Inr (sc, d), s')) \<and>
   handle_ready decode_fail_env Image fresh_world \<and>
   image_open decode_fail_env [] = Inl (Exception ''cannot identify image file'') \<and>
   fst (analyze_content decode_fail_env ''Image'' [] None None fresh_world)
     = Inr (0, Dict [(''error'',
                      PyStr ''Error processing image: cannot identify image file'')]) \<and>
   fst (analyze_content decode_fail_env ''Audio'' [1, 2, 3] None None fresh_world)
     = Inr (0, Dict [(''error'', PyStr
          ''Error processing audio: expected str, bytes or os.PathLike object, not NoneType'')]) \<and>
   created_path decode_fail_env fresh_world (Some ''clip.wav'') = Some (0, ''.wav'') \<and>
   librosa_load decode_fail_env (0, ''.wav'') [1, 2, 3] = Inl (Exception ''Error opening file'') \<and>
   fst (analyze_content decode_fail_env ''Audio'' [1, 2, 3] None (Some ''clip.wav'') fresh_world)
     = Inr (0, Dict [(''error'', PyStr ''Error processing audio: Error opening file'')])"
proof -
  note t = analyze_total [OF progress_quiet_None, of decode_fail_env "''Image''" "[]" None
                            fresh_world "''short''"]
  note u = analyze_total [OF progress_quiet_None, of decode_fail_env "''Audio''" "[1, 2, 3]"
                            "Some ''clip.wav''" fresh_world "''short''"]
  have h: "handle_ready decode_fail_env Image fresh_world"
    "image_open decode_fail_env [] = Inl (Exception ''cannot identify image file'')"
    by (simp_all add: handle_ready_def sample_defs)
  have c: "created_path decode_fail_env fresh_world (Some ''clip.wav'') = Some (0, ''.wav'')"
    "write_err decode_fail_env [1, 2, 3] = None" "unlink_err decode_fail_env (0, ''.wav'') = None"
    "librosa_load decode_fail_env (0, ''.wav'') [1, 2, 3] = Inl (Exception ''Error opening file'')"
    by (simp_all add: created_path_def fresh_tmp_first sample_defs)
  have "fst (analyze_content decode_fail_env ''Image'' [] None None fresh_world)
          = Inr (0, Dict [(''error'', PyStr (''Error processing image: '' @
                             str (Exception ''cannot identify image file'')))])"
    using t h by blast
  moreover have "fst (analyze_content decode_fail_env ''Audio'' [1, 2, 3] None None fresh_world)
          = Inr (0, Dict [(''error'', PyStr (''Error processing audio: '' @
                     ''expected str, bytes or os.PathLike object, not NoneType''))])"
    using analyze_total [OF progress_quiet_None, of decode_fail_env "''Audio''" "[1, 2, 3]"
                            None fresh_world "''short''"]
    by blast
  moreover have
    "fst (analyze_content decode_fail_env ''Audio'' [1, 2, 3] None (Some ''clip.wav'')
            fresh_world)
       = Inr (0, Dict [(''error'', PyStr (''Error processing audio: '' @
                          str (Exception ''Error opening file'')))])"
    using u c by blast
  moreover have
    "(\<exists>sc d s'. analyze_content decode_fail_env ''Audio'' [1, 2, 3] None (Some ''clip.wav'')
                 fresh_world = (Inr (sc, d), s')) \<and>
     (\<exists>sc d s'. analyze_text decode_fail_env ''short'' None fresh_world = (Inr (sc, d), s'))"
    using u by blast
  ultimately show ?thesis
    using h c progress_quiet_None by simp
qed

section \<open>The temporary file of an audio call\<close>

text \<open>
  C5 asks that an audio call removes the temporary file it made on every exit
  path. The code does so once the inner \<^verbatim>\<open>try\<close> is entered, but the file is
  written before it (lines 38 to 40): when the write raises, with
  \<^verbatim>\<open>os.unlink\<close> in working order, the call returns the error result and the file
  it made is still on a disk that was empty before.
\<close>

theorem audio_tmp_left_when_write_raises:
  "files fresh_world (0, ''.wav'') = None \<and>
   created_path write_fail_env fresh_world (Some ''clip.wav'') = Some (0, ''.wav'') \<and>
   unlink_err write_fail_env (0, ''.wav'') = None \<and>
   fst (analyze_content write_fail_env ''Audio'' [1, 2, 3] None (Some ''clip.wav'') fresh_world)
     = Inr (0, Dict [(''error'', PyStr ''Error processing audio: No space left on device'')]) \<and>
   files (snd (analyze_content write_fail_env ''Audio'' [1, 2, 3] None (Some ''clip.wav'')
                 fresh_world)) (0, ''.wav'')
     = Some []"
  by (simp add: analyze_content_quiet progress_quiet_None run_defs sample_defs
        created_path_def fresh_tmp_first)

section \<open>The length guard of the text analyzer\<close>

text \<open>
  C6. For every text whose stripped length is below 50, \<open>analyze_text\<close> returns
  score 0 with the details
  \<^verbatim>\<open>{"error": "Text is too short for accurate analysis", "text_length": n}\<close>
  and leaves the state as it was: no handle is requested, no model loaded, no
  inference run. For a stripped length of 50 or more the guard does not fire: the
  first thing the call does is request the text detector's handle, and its result
  is not the too-short error.
\<close>

theorem text_too_short_rejected:
  assumes "progress_quiet pb"
  shows "(length (strip t) < 50 \<longrightarrow>
            analyze_text e t pb s = (Inr (too_short (int (length t))), s)) \<and>
         (50 \<le> length (strip t) \<longrightarrow>
            (\<exists>r s'. analyze_text e t pb s = (Inr r, s') \<and>
                     take 1 (new_events s s') = [GetHandle Text] \<and>
                     (\<forall>n. r \<noteq> too_short n)))"
proof (intro conjI impI)
  assume "length (strip t) < 50"
  with assms show "analyze_text e t pb s = (Inr (too_short (int (length t))), s)"
    by (simp add: analyze_text_quiet text_score_ml_def too_short_def)
next
  assume len: "50 \<le> length (strip t)"
  obtain rb sb where b: "text_body e t s = (rb, sb)" by (cases "text_body e t s")
  obtain c s1 where g: "get_handle e Text s = (c, s1)" by (cases "get_handle e Text s")
  from get_handle_trace [OF g] obtain evs where
    t1: "trace s1 = trace s @ GetHandle Text # evs" by blast
  from b g have "\<exists>evs'. trace sb = trace s1 @ evs'"
    by (auto simp: text_body_def get_text_detector_def log_event_def Let_def
          split: option.splits sum.splits list.splits)
  with t1 have ev: "take 1 (new_events s sb) = [GetHandle Text]"
    by (auto simp: new_events_def)
  have nots: "\<forall>n. fst (text_score_ml e t s) \<noteq> too_short n"
    using len b
    by (auto simp: text_score_ml_def text_body_def too_short_def error_result_def Let_def
          split: prod.splits option.splits sum.splits list.splits)
  have "snd (text_score_ml e t s) = sb"
    using len b by (auto simp: text_score_ml_def split: sum.splits)
  with ev nots assms
  show "\<exists>r s'. analyze_text e t pb s = (Inr r, s') \<and>
                take 1 (new_events s s') = [GetHandle Text] \<and> (\<forall>n. r \<noteq> too_short n)"
    by (simp add: analyze_text_quiet)
qed

theorem text_too_short_rejected_witness:
  "progress_quiet None \<and> length (strip ''  short  '') < 50 \<and>
   analyze_text sample_env ''  short  '' None fresh_world = (Inr (too_short 9), fresh_world) \<and>
   50 \<le> length (strip (replicate 60 (CHR ''a''))) \<and>
   (\<exists>r s'. analyze_text sample_env (replicate 60 (CHR ''a'')) None fresh_world = (Inr r, s') \<and>
            take 1 (new_events fresh_world s') = [GetHandle Text] \<and>
            (\<forall>n. r \<noteq> too_short n))"
proof -
  have a: "length (strip ''  short  '') < 50" by code_simp
  have b: "50 \<le> length (strip (replicate 60 (CHR ''a'')))" by code_simp
  have "analyze_text sample_env ''  short  '' None fresh_world
          = (Inr (too_short (int (length ''  short  ''))), fresh_world)"
    using text_too_short_rejected [OF progress_quiet_None, of "''  short  ''" sample_env
                                     fresh_world] a
    by blast
  moreover have
    "\<exists>r s'. analyze_text sample_env (replicate 60 (CHR ''a'')) None fresh_world = (Inr r, s') \<and>
            take 1 (new_events fresh_world s') = [GetHandle Text] \<and>
            (\<forall>n. r \<noteq> too_short n)"
    using text_too_short_rejected [OF progress_quiet_None, of "replicate 60 (CHR ''a'')"
                                     sample_env fresh_world] b
    by blast
  ultimately show ?thesis
    using a b progress_quiet_None by simp
qed

section \<open>Dispatch by modality\<close>

text \<open>
  C8. For every modality string other than "Image", "Video" and "Audio" and every
  input, \<open>analyze_content\<close> returns score 0 with the details
  \<^verbatim>\<open>{"error": "Unsupported modality"}\<close> and leaves the state as it was: no handle
  is requested or invoked.
\<close>

theorem unsupported_modality:
  assumes "progress_quiet pb"
    and "m \<notin> {''Image'', ''Video'', ''Audio''}"
  shows "analyze_content e m b pb fn s = (Inr unsupported, s)"
  using assms by (simp add: analyze_content_quiet)

theorem unsupported_modality_witness:
  "progress_quiet None \<and> ''Unsupported'' \<notin> {''Image'', ''Video'', ''Audio''} \<and>
   analyze_content sample_env ''Unsupported'' [1, 2, 3] None (Some ''clip.wav'') fresh_world
     = (Inr unsupported, fresh_world)"
proof -
  have m: "''Unsupported'' \<notin> {''Image'', ''Video'', ''Audio''}" by simp
  from unsupported_modality [OF progress_quiet_None m] progress_quiet_None m
  show ?thesis by blast
qed

text \<open>
  C7 (as the code has it). \<open>analyze_content\<close> sends "Image" and "Video" to the
  image analyzer and "Audio" to the audio analyzer, each touching only its own
  capability; the modality "Text" is not dispatched and gets the
  "Unsupported modality" result with the state unchanged. Text is analysed through
  \<open>analyze_text\<close>, which runs the text analyzer and touches only the text capability.
\<close>

theorem dispatch_by_modality:
  assumes "progress_quiet pb"
  shows "(m \<in> {''Image'', ''Video''} \<longrightarrow>
            analyze_content e m b pb fn s
              = (Inr (fst (image_score_ml e b s)), snd (image_score_ml e b s)) \<and>
            only_events Image s (snd (analyze_content e m b pb fn s))) \<and>
         (analyze_content e ''Audio'' b pb fn s
              = (Inr (fst (process_audio_file e b fn s)), snd (process_audio_file e b fn s)) \<and>
            only_events Audio s (snd (analyze_content e ''Audio'' b pb fn s))) \<and>
         analyze_content e ''Text'' b pb fn s = (Inr unsupported, s) \<and>
         (analyze_text e t pb s = (Inr (fst (text_score_ml e t s)), snd (text_score_ml e t s)) \<and>
            only_events Text s (snd (analyze_text e t pb s)))"
  using assms
  by (auto simp: analyze_content_quiet analyze_text_quiet
        intro: image_score_ml_only process_audio_file_only text_score_ml_only
               prod.collapse [symmetric])

theorem dispatch_by_modality_witness:
  "progress_quiet None \<and> ''Video'' \<in> {''Image'', ''Video''} \<and>
   analyze_content sample_env ''Video'' [] None None fresh_world
     = (Inr (fst (image_score_ml sample_env [] fresh_world)),
        snd (image_score_ml sample_env [] fresh_world)) \<and>
   only_events Image fresh_world
     (snd (analyze_content sample_env ''Video'' [] None None fresh_world)) \<and>
   analyze_content sample_env ''Text'' [] None None fresh_world = (Inr unsupported, fresh_world)"
proof -
  have m: "''Video'' \<in> {''Image'', ''Video''}" by simp
  from dispatch_by_modality [OF progress_quiet_None, of "''Video''" sample_env "[]" None
                               fresh_world] m progress_quiet_None
  show ?thesis by blast
qed

text \<open>
  C7 as stated fails: a call with modality "Text" is answered with the
  "Unsupported modality" result and runs no analysis.
\<close>

theorem text_modality_unsupported:
  "analyze_content sample_env ''Text'' [] None None fresh_world =
     (Inr (0, Dict [(''error'', PyStr ''Unsupported modality'')]), fresh_world)"
  by (simp add: analyze_content_def progress_loop_None)

section \<open>The reported text length\<close>

text \<open>
  C10. When \<open>analyze_text\<close> rejects a text as too short, the reported
  \<open>text_length\<close> is the length of the text as given, while the test is on the
  stripped length; so some text of length at least 50 whose stripped length is
  below 50 is rejected with a reported \<open>text_length\<close> of at least 50.
\<close>

theorem text_length_is_unstripped:
  assumes "progress_quiet pb"
  shows "(length (strip t) < 50 \<longrightarrow>
            fst (analyze_text e t pb s) = Inr (too_short (int (length t)))) \<and>
         (\<exists>t' n. 50 \<le> length t' \<and> length (strip t') < 50 \<and> 50 \<le> n \<and>
                  fst (analyze_text e t' pb s) = Inr (too_short n))"
proof
  show "length (strip t) < 50 \<longrightarrow>
          fst (analyze_text e t pb s) = Inr (too_short (int (length t)))"
    using assms by (simp add: analyze_text_quiet text_score_ml_def too_short_def)
next
  define t0 where "t0 = ''short'' @ replicate 50 (CHR '' '')"
  have s: "strip t0 = ''short''" unfolding t0_def by code_simp
  have l: "length t0 = 55" unfolding t0_def by simp
  have "fst (analyze_text e t0 pb s) = Inr (too_short 55)"
    using assms by (simp add: analyze_text_quiet text_score_ml_def too_short_def s l)
  with s l show "\<exists>t' n. 50 \<le> length t' \<and> length (strip t') < 50 \<and> 50 \<le> n \<and>
                  fst (analyze_text e t' pb s) = Inr (too_short n)"
    by (intro exI [of _ t0] exI [of _ 55]) simp
qed

theorem text_length_is_unstripped_witness:
  "progress_quiet None \<and> length (strip (''short'' @ replicate 50 (CHR '' ''))) < 50 \<and>
   fst (analyze_text sample_env (''short'' @ replicate 50 (CHR '' '')) None fresh_world)
     = Inr (too_short 55)"
proof -
  define t0 where "t0 = ''short'' @ replicate 50 (CHR '' '')"
  have a: "length (strip t0) < 50" unfolding t0_def by code_simp
  have l: "length t0 = 55" unfolding t0_def by simp
  have "fst (analyze_text sample_env t0 None fresh_world) = Inr (too_short (int (length t0)))"
    using text_length_is_unstripped [OF progress_quiet_None, of t0 sample_env fresh_world] a
    by blast
  then show ?thesis
    using a progress_quiet_None unfolding l unfolding t0_def by simp
qed

end
